theory Spec2Isabelle
  imports Main "HOL-Library.Sublist"
begin

section \<open>Text\<close>

text \<open>
  The script works on Python \<^verbatim>\<open>str\<close> values: the text of \<^verbatim>\<open>popup.html\<close>,
  \<^verbatim>\<open>content.js\<close> and \<^verbatim>\<open>manifest.json\<close>, and the strings of the API's answers.
  A text is a list of characters. Characters are HOL characters, so the texts covered
  are those whose code points lie below 256; the tables below (white space, lower case,
  printable characters) are Python's, restricted to that range.
\<close>

definition is_space :: "char \<Rightarrow> bool" where
  \<comment> \<open>\<^verbatim>\<open>str.isspace\<close> on one character; also the class \<^verbatim>\<open>\s\<close> of a \<^verbatim>\<open>str\<close> pattern.\<close>
  "is_space c = (of_char c \<in> {9, 10, 11, 12, 13, 28, 29, 30, 31, 32, 133, 160 :: nat})"

definition strip :: "string \<Rightarrow> string" where
  \<comment> \<open>\<^verbatim>\<open>s.strip()\<close>\<close>
  "strip s = rev (dropWhile is_space (rev (dropWhile is_space s)))"

definition lower_char :: "char \<Rightarrow> char" where
  "lower_char c =
     (let n = of_char c :: nat
      in if (65 \<le> n \<and> n \<le> 90) \<or> (192 \<le> n \<and> n \<le> 222 \<and> n \<noteq> 215)
         then char_of (n + 32) else c)"

definition lower :: "string \<Rightarrow> string" where
  \<comment> \<open>\<^verbatim>\<open>s.lower()\<close>\<close>
  "lower s = map lower_char s"

fun find_sub :: "string \<Rightarrow> string \<Rightarrow> nat option" where
  \<comment> \<open>\<^verbatim>\<open>s.find(pat)\<close>: the index of the leftmost occurrence of \<open>pat\<close> in \<open>s\<close>.\<close>
  "find_sub pat [] = (if pat = [] then Some 0 else None)"
| "find_sub pat (c # cs) =
     (if prefix pat (c # cs) then Some 0 else map_option Suc (find_sub pat cs))"

function replace_all :: "string \<Rightarrow> string \<Rightarrow> string \<Rightarrow> string" where
  \<comment> \<open>\<^verbatim>\<open>s.replace(old, new)\<close>: every occurrence, left to right, without overlap.\<close>
  "replace_all old new [] = (if old = [] then new else [])"
| "replace_all old new (c # cs) =
     (if old = [] then new @ c # replace_all old new cs
      else if prefix old (c # cs)
           then new @ replace_all old new (drop (length old) (c # cs))
           else c # replace_all old new cs)"
  by pat_completeness auto
termination
  by (relation "measure (\<lambda>(old, new, s). length s)") auto

fun join :: "string \<Rightarrow> string list \<Rightarrow> string" where
  \<comment> \<open>\<^verbatim>\<open>sep.join(xs)\<close>\<close>
  "join sep [] = []"
| "join sep [x] = x"
| "join sep (x # y # ys) = x @ sep @ join sep (y # ys)"

fun split_on :: "char \<Rightarrow> string \<Rightarrow> string list" where
  \<comment> \<open>\<^verbatim>\<open>s.split(d)\<close> for a separator of one character.\<close>
  "split_on d [] = [[]]"
| "split_on d (c # cs) =
     (if c = d then [] # split_on d cs
      else (case split_on d cs of [] \<Rightarrow> [[c]] | p # ps \<Rightarrow> (c # p) # ps))"

subsection \<open>Integers and their decimal text\<close>

text \<open>
  Python's integers are unbounded, and so are \<open>nat\<close> and \<open>int\<close>. The interpreter's
  limit on the number of digits of a decimal conversion is not modelled.
\<close>

definition digit_char :: "nat \<Rightarrow> char" where
  "digit_char n = char_of (48 + n)"

fun str_nat :: "nat \<Rightarrow> string" where
  "str_nat n = (if n < 10 then [digit_char n] else str_nat (n div 10) @ [digit_char (n mod 10)])"

declare str_nat.simps [simp del]

definition str_int :: "int \<Rightarrow> string" where
  \<comment> \<open>\<^verbatim>\<open>str(i)\<close> for an integer\<close>
  "str_int i = (if i < 0 then CHR ''-'' # str_nat (nat (- i)) else str_nat (nat i))"

definition is_digit :: "char \<Rightarrow> bool" where
  "is_digit c = (48 \<le> (of_char c :: nat) \<and> (of_char c :: nat) \<le> 57)"

definition digit_val :: "char \<Rightarrow> nat" where
  "digit_val c = of_char c - 48"

definition digits_val :: "string \<Rightarrow> nat" where
  "digits_val ds = foldl (\<lambda>acc c. 10 * acc + digit_val c) 0 ds"

fun int_body :: "string \<Rightarrow> bool" where
  \<comment> \<open>The digits of an integer literal: digits, with single underscores between them.\<close>
  "int_body [] = False"
| "int_body [c] = is_digit c"
| "int_body (c # d # cs) =
     (is_digit c \<and> (if d = CHR ''_'' then int_body cs else int_body (d # cs)))"

definition py_int :: "string \<Rightarrow> int option" where
  \<comment> \<open>\<^verbatim>\<open>int(s)\<close> in base ten; \<open>None\<close> where it raises \<^verbatim>\<open>ValueError\<close>.\<close>
  "py_int s =
     (let t = strip s;
          neg = (t \<noteq> [] \<and> hd t = CHR ''-'');
          body = (if t \<noteq> [] \<and> (hd t = CHR ''-'' \<or> hd t = CHR ''+'') then tl t else t)
      in if int_body body
         then Some ((if neg then - 1 else 1) * int (digits_val (filter is_digit body)))
         else None)"

section \<open>JSON values\<close>

text \<open>
  What \<^verbatim>\<open>response.json()\<close> and \<^verbatim>\<open>json.load\<close> return. An object keeps its keys in
  order, as a Python \<^verbatim>\<open>dict\<close> does. The script never computes with a float: it tests
  one for zero, prints it and writes it back, so a float is held as the text
  \<^verbatim>\<open>repr\<close> gives for it (\<^verbatim>\<open>1.0\<close>, \<^verbatim>\<open>0.5\<close>, \<^verbatim>\<open>inf\<close>).
\<close>

datatype json =
    JNull
  | JBool bool
  | JInt int
  | JFloat string
  | JStr string
  | JList "json list"
  | JObj "(string \<times> json) list"

datatype error =
    AttributeError json string
  | TypeError json
  | KeyError string
  | ValueError string
  | JSONDecodeError string
  | ReError string
  | IndexError string

type_synonym 'a result = "error + 'a"

definition py_truthy :: "json \<Rightarrow> bool" where
  \<comment> \<open>the truth value of \<^verbatim>\<open>if v:\<close>\<close>
  "py_truthy v =
     (case v of
        JNull \<Rightarrow> False
      | JBool b \<Rightarrow> b
      | JInt i \<Rightarrow> i \<noteq> 0
      | JFloat r \<Rightarrow> r \<noteq> ''0.0'' \<and> r \<noteq> ''-0.0''
      | JStr s \<Rightarrow> s \<noteq> []
      | JList xs \<Rightarrow> xs \<noteq> []
      | JObj kvs \<Rightarrow> kvs \<noteq> [])"

definition py_get :: "json \<Rightarrow> string \<Rightarrow> json \<Rightarrow> json result" where
  \<comment> \<open>\<^verbatim>\<open>d.get(k, dflt)\<close>: only a dict has the method.\<close>
  "py_get d k dflt =
     (case d of
        JObj kvs \<Rightarrow> Inr (case map_of kvs k of None \<Rightarrow> dflt | Some v \<Rightarrow> v)
      | _ \<Rightarrow> Inl (AttributeError d ''get''))"

definition py_getitem :: "json \<Rightarrow> string \<Rightarrow> json result" where
  \<comment> \<open>\<^verbatim>\<open>d[k]\<close> for a string key \<open>k\<close>\<close>
  "py_getitem d k =
     (case d of
        JObj kvs \<Rightarrow> (case map_of kvs k of None \<Rightarrow> Inl (KeyError k) | Some v \<Rightarrow> Inr v)
      | _ \<Rightarrow> Inl (TypeError d))"

definition py_iter :: "json \<Rightarrow> json list result" where
  \<comment> \<open>the items \<^verbatim>\<open>for x in v\<close> runs through\<close>
  "py_iter v =
     (case v of
        JList xs \<Rightarrow> Inr xs
      | JObj kvs \<Rightarrow> Inr (map (\<lambda>kv. JStr (fst kv)) kvs)
      | JStr s \<Rightarrow> Inr (map (\<lambda>c. JStr [c]) s)
      | _ \<Rightarrow> Inl (TypeError v))"

definition py_len :: "json \<Rightarrow> nat result" where
  \<comment> \<open>\<^verbatim>\<open>len(v)\<close>\<close>
  "py_len v =
     (case v of
        JList xs \<Rightarrow> Inr (length xs)
      | JObj kvs \<Rightarrow> Inr (length kvs)
      | JStr s \<Rightarrow> Inr (length s)
      | _ \<Rightarrow> Inl (TypeError v))"

fun map_result :: "('a \<Rightarrow> 'b result) \<Rightarrow> 'a list \<Rightarrow> 'b list result" where
  \<comment> \<open>A loop that builds a list and stops at the first exception.\<close>
  "map_result f [] = Inr []"
| "map_result f (x # xs) =
     (case f x of
        Inl e \<Rightarrow> Inl e
      | Inr y \<Rightarrow> (case map_result f xs of Inl e \<Rightarrow> Inl e | Inr ys \<Rightarrow> Inr (y # ys)))"

subsection \<open>Printing a value\<close>

definition hex_digit :: "nat \<Rightarrow> char" where
  "hex_digit n = (if n < 10 then char_of (48 + n) else char_of (87 + n))"

definition printable :: "char \<Rightarrow> bool" where
  \<comment> \<open>\<^verbatim>\<open>str.isprintable\<close> on one character\<close>
  "printable c =
     (let n = of_char c :: nat
      in (32 \<le> n \<and> n \<le> 126) \<or> (161 \<le> n \<and> n \<noteq> 173))"

definition repr_char :: "char \<Rightarrow> char \<Rightarrow> string" where
  "repr_char q c =
     (if c = CHR 0x5C then [CHR 0x5C, CHR 0x5C]
      else if c = q then [CHR 0x5C, q]
      else if c = CHR 0x09 then [CHR 0x5C, CHR ''t'']
      else if c = CHR 0x0A then [CHR 0x5C, CHR ''n'']
      else if c = CHR 0x0D then [CHR 0x5C, CHR ''r'']
      else if printable c then [c]
      else [CHR 0x5C, CHR ''x'', hex_digit (of_char c div 16), hex_digit (of_char c mod 16)])"

definition repr_str :: "string \<Rightarrow> string" where
  \<comment> \<open>\<^verbatim>\<open>repr(s)\<close> for a string\<close>
  "repr_str s =
     (let q = (if CHR 0x27 \<in> set s \<and> CHR 0x22 \<notin> set s then CHR 0x22 else CHR 0x27)
      in q # concat (map (repr_char q) s) @ [q])"

primrec py_repr :: "json \<Rightarrow> string" where
  \<comment> \<open>\<^verbatim>\<open>repr(v)\<close>\<close>
  "py_repr JNull = ''None''"
| "py_repr (JBool b) = (if b then ''True'' else ''False'')"
| "py_repr (JInt i) = str_int i"
| "py_repr (JFloat r) = r"
| "py_repr (JStr s) = repr_str s"
| "py_repr (JList xs) = ''['' @ join '', '' (map py_repr xs) @ '']''"
| "py_repr (JObj kvs) =
     ''{'' @ join '', '' (map (\<lambda>kr. repr_str (fst kr) @ '': '' @ snd kr)
                            (map (map_prod id py_repr) kvs)) @ ''}''"

definition py_str :: "json \<Rightarrow> string" where
  \<comment> \<open>\<^verbatim>\<open>str(v)\<close>, which is what an f-string field \<^verbatim>\<open>{v}\<close> prints\<close>
  "py_str v = (case v of JStr s \<Rightarrow> s | _ \<Rightarrow> py_repr v)"

subsection \<open>Writing a value: \<^verbatim>\<open>json.dump(v, f, indent=2)\<close>\<close>

definition json_char :: "char \<Rightarrow> string" where
  "json_char c =
     (let n = of_char c :: nat
      in if c = CHR 0x22 then [CHR 0x5C, CHR 0x22]
         else if c = CHR 0x5C then [CHR 0x5C, CHR 0x5C]
         else if c = CHR 0x0A then [CHR 0x5C, CHR ''n'']
         else if c = CHR 0x0D then [CHR 0x5C, CHR ''r'']
         else if c = CHR 0x09 then [CHR 0x5C, CHR ''t'']
         else if c = CHR 0x08 then [CHR 0x5C, CHR ''b'']
         else if c = CHR 0x0C then [CHR 0x5C, CHR ''f'']
         else if 32 \<le> n \<and> n \<le> 126 then [c]
         else [CHR 0x5C, CHR ''u'', CHR ''0'', CHR ''0'', hex_digit (n div 16), hex_digit (n mod 16)])"

definition json_string :: "string \<Rightarrow> string" where
  "json_string s = CHR 0x22 # concat (map json_char s) @ [CHR 0x22]"

definition json_float :: "string \<Rightarrow> string" where
  "json_float r =
     (if r = ''nan'' then ''NaN''
      else if r = ''inf'' then ''Infinity''
      else if r = ''-inf'' then ''-Infinity''
      else r)"

definition nl_indent :: "nat \<Rightarrow> string" where
  \<comment> \<open>a line break and the indentation of nesting level \<open>lvl\<close>\<close>
  "nl_indent lvl = CHR 0x0A # replicate (2 * lvl) CHR '' ''"

primrec dumps_at :: "json \<Rightarrow> nat \<Rightarrow> string" where
  "dumps_at JNull lvl = ''null''"
| "dumps_at (JBool b) lvl = (if b then ''true'' else ''false'')"
| "dumps_at (JInt i) lvl = str_int i"
| "dumps_at (JFloat r) lvl = json_float r"
| "dumps_at (JStr s) lvl = json_string s"
| "dumps_at (JList xs) lvl =
     (if xs = [] then ''[]''
      else ''['' @ nl_indent (Suc lvl)
           @ join ('','' @ nl_indent (Suc lvl)) (map (\<lambda>f. f (Suc lvl)) (map dumps_at xs))
           @ nl_indent lvl @ '']'')"
| "dumps_at (JObj kvs) lvl =
     (if kvs = [] then ''{}''
      else ''{'' @ nl_indent (Suc lvl)
           @ join ('','' @ nl_indent (Suc lvl))
               (map (\<lambda>kf. json_string (fst kf) @ '': '' @ snd kf (Suc lvl))
                    (map (map_prod id dumps_at) kvs))
           @ nl_indent lvl @ ''}'')"

definition json_dumps :: "json \<Rightarrow> string" where
  "json_dumps v = dumps_at v 0"

section \<open>Regular expressions\<close>

text \<open>
  The script uses two fixed patterns. Each is written out as the search the matcher
  performs for it.

  \<^verbatim>\<open>(<select id="mode">[\s\S]*?</select>)\<close>: the matcher tries the start positions from
  the left, so the match starts at the leftmost \<^verbatim>\<open><select id="mode">\<close>; the lazy
  \<^verbatim>\<open>[\s\S]*?\<close> then stops at the first \<^verbatim>\<open></select>\<close> after that tag. Where no
  \<^verbatim>\<open></select>\<close> follows the leftmost opening tag, none follows a later one either, and
  there is no match.
\<close>

definition select_open :: string where
  \<open>select_open = ''<select id="mode">''\<close>

definition select_close :: string where
  \<open>select_close = ''</select>''\<close>

definition search_select :: "string \<Rightarrow> (nat \<times> string) option" where
  \<comment> \<open>\<^verbatim>\<open>re.search(select_pattern, content)\<close>: where the match starts, and its text.\<close>
  "search_select content =
     (case find_sub select_open content of
        None \<Rightarrow> None
      | Some i \<Rightarrow>
          (case find_sub select_close (drop (i + length select_open) content) of
             None \<Rightarrow> None
           | Some j \<Rightarrow>
               Some (i, take (length select_open + j + length select_close) (drop i content))))"

text \<open>
  \<^verbatim>\<open>(const model_id =\s*[\s\S]*?\n)\<close>: the match starts at the leftmost
  \<^verbatim>\<open>const model_id =\<close>. The greedy \<^verbatim>\<open>\s*\<close> first takes the whole run of white space
  after it, and the lazy \<^verbatim>\<open>[\s\S]*?\<close> stops at the first line break behind that run.
  Where no line break stands behind the run, the matcher gives white space back one
  character at a time, and the match ends with the last line break of the run. Where
  there is none either, no line break follows the declaration at all and there is no
  match.
\<close>

definition mapping_head :: string where
  "mapping_head = ''const model_id =''"

definition search_mapping :: "string \<Rightarrow> (nat \<times> nat) option" where
  \<comment> \<open>\<^verbatim>\<open>re.search(pattern, content)\<close>: where the match starts and where it ends.\<close>
  "search_mapping content =
     (case find_sub mapping_head content of
        None \<Rightarrow> None
      | Some i \<Rightarrow>
          (let j = i + length mapping_head;
               ws = takeWhile is_space (drop j content);
               behind = dropWhile is_space (drop j content)
           in case find_sub [CHR 0x0A] behind of
                Some k \<Rightarrow> Some (i, j + length ws + k + 1)
              | None \<Rightarrow>
                  (case find_sub [CHR 0x0A] (rev ws) of
                     Some r \<Rightarrow> Some (i, j + (length ws - r))
                   | None \<Rightarrow> None)))"

subsection \<open>The replacement template of \<^verbatim>\<open>re.sub\<close>\<close>

text \<open>
  \<^verbatim>\<open>re.sub\<close> reads its replacement as a template: a backslash starts an escape or a
  reference to a group of the match. The pattern has one group, the whole match, and no
  named group.
\<close>

datatype titem = Lit char | Group nat

definition is_octal :: "char \<Rightarrow> bool" where
  "is_octal c = (48 \<le> (of_char c :: nat) \<and> (of_char c :: nat) \<le> 55)"

definition is_ascii_letter :: "char \<Rightarrow> bool" where
  "is_ascii_letter c =
     (let n = of_char c :: nat in (65 \<le> n \<and> n \<le> 90) \<or> (97 \<le> n \<and> n \<le> 122))"

definition id_start :: "char \<Rightarrow> bool" where
  "id_start c =
     (let n = of_char c :: nat
      in is_ascii_letter c \<or> n = 95 \<or> n = 170 \<or> n = 181 \<or> n = 186
         \<or> (192 \<le> n \<and> n \<noteq> 215 \<and> n \<noteq> 247))"

definition is_identifier :: "string \<Rightarrow> bool" where
  \<comment> \<open>\<^verbatim>\<open>str.isidentifier\<close>\<close>
  "is_identifier s =
     (case s of
        [] \<Rightarrow> False
      | c # cs \<Rightarrow> id_start c \<and> list_all (\<lambda>d. id_start d \<or> is_digit d \<or> of_char d = (183 :: nat)) cs)"

definition octal_val :: "string \<Rightarrow> nat" where
  "octal_val ds = foldl (\<lambda>acc c. 8 * acc + digit_val c) 0 ds"

definition simple_escape :: "char \<Rightarrow> char option" where
  \<comment> \<open>the table \<^verbatim>\<open>ESCAPES\<close> of the parser\<close>
  "simple_escape c =
     (if c = CHR ''a'' then Some (CHR 0x07)
      else if c = CHR ''b'' then Some (CHR 0x08)
      else if c = CHR ''f'' then Some (CHR 0x0C)
      else if c = CHR ''n'' then Some (CHR 0x0A)
      else if c = CHR ''r'' then Some (CHR 0x0D)
      else if c = CHR ''t'' then Some (CHR 0x09)
      else if c = CHR ''v'' then Some (CHR 0x0B)
      else if c = CHR 0x5C then Some (CHR 0x5C)
      else None)"

definition group_ref :: "string \<Rightarrow> nat \<Rightarrow> titem result" where
  \<comment> \<open>\<^verbatim>\<open>addgroup\<close>: the pattern has the groups 0 and 1.\<close>
  "group_ref tmpl n = (if n \<le> 1 then Inr (Group n) else Inl (ReError tmpl))"

function parse_from :: "string \<Rightarrow> string \<Rightarrow> titem list result" where
  \<comment> \<open>\<^verbatim>\<open>parse_template\<close>, on what is left of the template \<open>tmpl\<close>\<close>
  "parse_from tmpl [] = Inr []"
| "parse_from tmpl (c # cs) =
     (if c \<noteq> CHR 0x5C then
        (case parse_from tmpl cs of Inl e \<Rightarrow> Inl e | Inr its \<Rightarrow> Inr (Lit c # its))
      else
        (case cs of
           [] \<Rightarrow> Inl (ReError tmpl)
         | d # ds \<Rightarrow>
             if d = CHR ''g'' then
               (if ds = [] \<or> hd ds \<noteq> CHR ''<'' \<or> CHR ''>'' \<notin> set (tl ds)
                then Inl (ReError tmpl)
                else
                  (let name = takeWhile (\<lambda>x. x \<noteq> CHR ''>'') (tl ds);
                       rest = tl (dropWhile (\<lambda>x. x \<noteq> CHR ''>'') (tl ds))
                   in if name = [] then Inl (ReError tmpl)
                      else if list_all is_digit name then
                        (case group_ref tmpl (digits_val name) of
                           Inl e \<Rightarrow> Inl e
                         | Inr g \<Rightarrow>
                             (case parse_from tmpl rest of
                                Inl e \<Rightarrow> Inl e
                              | Inr its \<Rightarrow> Inr (g # its)))
                      else if \<not> is_identifier name \<or> rest = [CHR 0x5C]
                        then Inl (ReError tmpl)
                        else Inl (IndexError name)))
             else if d = CHR ''0'' then
               (let oct = takeWhile is_octal (take 2 ds)
                in case parse_from tmpl (drop (length oct) ds) of
                     Inl e \<Rightarrow> Inl e
                   | Inr its \<Rightarrow> Inr (Lit (char_of (octal_val oct mod 256)) # its))
             else if is_digit d then
               (if ds \<noteq> [] \<and> is_digit (hd ds) then
                  (if is_octal d \<and> is_octal (hd ds) \<and> tl ds \<noteq> [] \<and> is_octal (hd (tl ds))
                   then
                     (if 255 < octal_val (d # take 2 ds) then Inl (ReError tmpl)
                      else
                        (case parse_from tmpl (drop 2 ds) of
                           Inl e \<Rightarrow> Inl e
                         | Inr its \<Rightarrow> Inr (Lit (char_of (octal_val (d # take 2 ds))) # its)))
                   else
                     (case group_ref tmpl (digits_val [d, hd ds]) of
                        Inl e \<Rightarrow> Inl e
                      | Inr g \<Rightarrow>
                          (case parse_from tmpl (tl ds) of
                             Inl e \<Rightarrow> Inl e
                           | Inr its \<Rightarrow> Inr (g # its))))
                else
                  (case group_ref tmpl (digits_val [d]) of
                     Inl e \<Rightarrow> Inl e
                   | Inr g \<Rightarrow>
                       (case parse_from tmpl ds of
                          Inl e \<Rightarrow> Inl e
                        | Inr its \<Rightarrow> Inr (g # its))))
             else
               (case simple_escape d of
                  Some x \<Rightarrow>
                    (case parse_from tmpl ds of
                       Inl e \<Rightarrow> Inl e
                     | Inr its \<Rightarrow> Inr (Lit x # its))
                | None \<Rightarrow>
                    if is_ascii_letter d then Inl (ReError tmpl)
                    else
                      (case parse_from tmpl ds of
                         Inl e \<Rightarrow> Inl e
                       | Inr its \<Rightarrow> Inr (Lit c # Lit d # its)))))"
  by pat_completeness auto
termination
proof (relation "measure (\<lambda>(tmpl, s). length s)")
  fix tmpl :: string and c :: char and cs :: string and d :: char and ds :: string
    and name rest :: string
  assume "cs = d # ds"
    and "name = takeWhile (\<lambda>x. x \<noteq> CHR ''>'') (tl ds)"
    and "rest = tl (dropWhile (\<lambda>x. x \<noteq> CHR ''>'') (tl ds))"
  moreover have "length (dropWhile (\<lambda>x. x \<noteq> CHR ''>'') (tl ds)) \<le> length (tl ds)"
    by (rule length_dropWhile_le)
  ultimately show "((tmpl, rest), tmpl, c # cs) \<in> measure (\<lambda>(tmpl, s). length s)"
    by simp
qed auto

definition parse_template :: "string \<Rightarrow> titem list result" where
  "parse_template tmpl = parse_from tmpl tmpl"

definition expand_template :: "titem list \<Rightarrow> string \<Rightarrow> string" where
  \<comment> \<open>the replacement for one match \<open>m\<close>: both groups are the whole match\<close>
  "expand_template items m = concat (map (\<lambda>it. case it of Lit c \<Rightarrow> [c] | Group n \<Rightarrow> m) items)"

function sub_mapping :: "titem list \<Rightarrow> string \<Rightarrow> string" where
  \<comment> \<open>\<^verbatim>\<open>re.sub\<close> for the mapping pattern: every match, left to right, is replaced.\<close>
  "sub_mapping items s =
     (case search_mapping s of
        None \<Rightarrow> s
      | Some (i, e) \<Rightarrow>
          take i s @ expand_template items (take (e - i) (drop i s))
            @ sub_mapping items (drop e s))"
  by pat_completeness auto
termination
proof (relation "measure (\<lambda>(items, s). length s)")
  fix items :: "titem list" and s :: string and x2 :: "nat \<times> nat" and i e :: nat
  assume "search_mapping s = Some x2" and "(i, e) = x2"
  then have "0 < e \<and> s \<noteq> []"
    by (auto simp: search_mapping_def Let_def mapping_head_def split: option.splits)
  then show "((items, drop e s), items, s) \<in> measure (\<lambda>(items, s). length s)"
    by simp
qed simp

declare sub_mapping.simps [simp del]

definition re_sub_mapping :: "string \<Rightarrow> string \<Rightarrow> string result" where
  \<comment> \<open>\<^verbatim>\<open>re.sub(pattern, repl, content)\<close>: a replacement without a backslash is taken
      literally, any other is parsed as a template first.\<close>
  "re_sub_mapping repl content =
     (if CHR 0x5C \<notin> set repl then Inr (sub_mapping (map Lit repl) content)
      else
        (case parse_template repl of
           Inl e \<Rightarrow> Inl e
         | Inr items \<Rightarrow> Inr (sub_mapping items content)))"

section \<open>The updater\<close>

text \<open>
  The world of one run. \<open>files\<close> is the extension directory, from file name to text
  (the script reads and writes every file as UTF-8 text, whole); \<open>stdout\<close> is what has
  been printed. The directory exists and can be written, and every file in it can be
  read as text. The three GET requests are answered by the \<open>api\<close>: \<open>Inl msg\<close> is a
  request that raised a \<^verbatim>\<open>RequestException\<close> whose text is \<open>msg\<close>, \<open>Inr v\<close> the value
  \<^verbatim>\<open>response.json()\<close> returned. Two things come from the interpreter's library and are
  parameters: what \<^verbatim>\<open>json.load\<close> makes of a text (\<open>None\<close> where it raises) and the text
  of an exception, \<^verbatim>\<open>str(e)\<close>.
\<close>

record state =
  files :: "string \<rightharpoonup> string"
  stdout :: string

record api =
  models_response :: "string + json"
  voices_response :: "string + json"
  subscription_response :: "string + json"

record pylib =
  json_loads :: "string \<Rightarrow> json option"
  exc_text :: "error \<Rightarrow> string"

record updater =
  api_key :: string
  extension_path :: string

definition py_print :: "string \<Rightarrow> state \<Rightarrow> state" where
  \<comment> \<open>\<^verbatim>\<open>print(s)\<close>\<close>
  "py_print s st = st\<lparr>stdout := stdout st @ s @ [CHR 0x0A]\<rparr>"

definition write_file :: "string \<Rightarrow> string \<Rightarrow> state \<Rightarrow> state" where
  \<comment> \<open>\<^verbatim>\<open>open(path, 'w')\<close> and the writes up to its close\<close>
  "write_file name txt st = st\<lparr>files := (files st)(name \<mapsto> txt)\<rparr>"

definition path_str :: "string \<Rightarrow> string \<Rightarrow> string" where
  \<comment> \<open>how \<^verbatim>\<open>extension_path / name\<close> prints, for a directory written in its normal form\<close>
  "path_str dir name =
     (if dir = [] \<or> dir = ''.'' then name
      else if last dir = CHR ''/'' then dir @ name
      else dir @ ''/'' @ name)"

definition and_then ::
  "state \<times> 'a result \<Rightarrow> (state \<Rightarrow> 'a \<Rightarrow> state \<times> 'b result) \<Rightarrow> state \<times> 'b result" where
  \<comment> \<open>One statement after another: an exception skips what follows.\<close>
  "and_then r k = (case r of (st, Inl e) \<Rightarrow> (st, Inl e) | (st, Inr x) \<Rightarrow> k st x)"

subsection \<open>Fetching\<close>

fun filter_tts :: "json list \<Rightarrow> json list result" where
  \<comment> \<open>the list comprehension of \<^verbatim>\<open>fetch_models\<close>\<close>
  "filter_tts [] = Inr []"
| "filter_tts (model # rest) =
     (case py_get model ''can_do_text_to_speech'' (JBool False) of
        Inl e \<Rightarrow> Inl e
      | Inr v \<Rightarrow>
          (case filter_tts rest of
             Inl e \<Rightarrow> Inl e
           | Inr ms \<Rightarrow> Inr (if py_truthy v then model # ms else ms)))"

definition fetch_models :: "api \<Rightarrow> state \<Rightarrow> state \<times> json list result" where
  "fetch_models a st =
     (let st1 = py_print ''Fetching available models...'' st
      in case models_response a of
           Inl msg \<Rightarrow> (py_print (''Error fetching models: '' @ msg) st1, Inr [])
         | Inr data \<Rightarrow>
             (case py_iter data of
                Inl e \<Rightarrow> (st1, Inl e)
              | Inr items \<Rightarrow>
                  (case filter_tts items of
                     Inl e \<Rightarrow> (st1, Inl e)
                   | Inr tts_models \<Rightarrow>
                       (py_print (''Found '' @ str_nat (length tts_models) @ '' TTS models'') st1,
                        Inr tts_models))))"

definition fetch_voices :: "api \<Rightarrow> state \<Rightarrow> state \<times> json result" where
  "fetch_voices a st =
     (let st1 = py_print ''Fetching available voices...'' st
      in case voices_response a of
           Inl msg \<Rightarrow> (py_print (''Error fetching voices: '' @ msg) st1, Inr (JList []))
         | Inr data \<Rightarrow>
             (case py_get data ''voices'' (JList []) of
                Inl e \<Rightarrow> (st1, Inl e)
              | Inr voices \<Rightarrow>
                  (case py_len voices of
                     Inl e \<Rightarrow> (st1, Inl e)
                   | Inr n \<Rightarrow>
                       (py_print (''Found '' @ str_nat n @ '' voices'') st1, Inr voices))))"

definition get_user_subscription :: "api \<Rightarrow> state \<Rightarrow> state \<times> json" where
  "get_user_subscription a st =
     (let st1 = py_print ''Fetching subscription info...'' st
      in case subscription_response a of
           Inl msg \<Rightarrow> (py_print (''Error fetching subscription: '' @ msg) st1, JObj [])
         | Inr data \<Rightarrow> (st1, data))"

subsection \<open>The dropdown of \<^verbatim>\<open>popup.html\<close>\<close>

record dropdown_entry =
  entry_value :: json
  entry_label :: string
  entry_name :: json
  entry_description :: json

definition slice50 :: "json \<Rightarrow> json result" where
  \<comment> \<open>\<^verbatim>\<open>v[:50]\<close>\<close>
  "slice50 v =
     (case v of
        JStr s \<Rightarrow> Inr (JStr (take 50 s))
      | JList xs \<Rightarrow> Inr (JList (take 50 xs))
      | JObj kvs \<Rightarrow> Inl (KeyError ''slice(None, 50, None)'')
      | _ \<Rightarrow> Inl (TypeError v))"

definition format_model_for_dropdown :: "json \<Rightarrow> dropdown_entry result" where
  "format_model_for_dropdown model =
     (case py_get model ''model_id'' (JStr []) of
        Inl e \<Rightarrow> Inl e
      | Inr model_id \<Rightarrow>
          (case py_get model ''name'' model_id of
             Inl e \<Rightarrow> Inl e
           | Inr name \<Rightarrow>
               (case py_get model ''description'' (JStr []) of
                  Inl e \<Rightarrow> Inl e
                | Inr description \<Rightarrow>
                    (if py_truthy description then
                       (case slice50 description of
                          Inl e \<Rightarrow> Inl e
                        | Inr d \<Rightarrow>
                            Inr \<lparr>entry_value = model_id,
                                 entry_label = py_str name @ '' - '' @ py_str d @ ''...'',
                                 entry_name = name,
                                 entry_description = description\<rparr>)
                     else
                       Inr \<lparr>entry_value = model_id,
                            entry_label = py_str name,
                            entry_name = name,
                            entry_description = description\<rparr>))))"

definition option_html :: "json \<Rightarrow> string result" where
  \<comment> \<open>the body of the loop over the models: one \<^verbatim>\<open><option>\<close> line\<close>
  \<open>option_html model =
     (case format_model_for_dropdown model of
        Inl e \<Rightarrow> Inl e
      | Inr formatted \<Rightarrow>
          Inr (''  <option value="'' @ py_str (entry_value formatted) @ ''">''
               @ py_str (entry_name formatted) @ ''</option>''))\<close>

definition new_select :: "string list \<Rightarrow> string" where
  \<open>new_select options_html =
     ''<select id="mode">'' @ [CHR 0x0A] @ join [CHR 0x0A] options_html @ [CHR 0x0A] @ ''</select>''\<close>

definition update_popup_html :: "updater \<Rightarrow> json list \<Rightarrow> state \<Rightarrow> state \<times> bool result" where
  "update_popup_html u models st =
     (let popup_file = path_str (extension_path u) ''popup.html''
      in case files st ''popup.html'' of
           None \<Rightarrow> (py_print (''Error: '' @ popup_file @ '' not found'') st, Inr False)
         | Some content \<Rightarrow>
             (let st1 = py_print (''Updating '' @ popup_file @ ''...'') st
              in case search_select content of
                   None \<Rightarrow>
                     (py_print ''Error: Could not find model select dropdown in popup.html'' st1,
                      Inr False)
                 | Some (i, old_select) \<Rightarrow>
                     (case map_result option_html models of
                        Inl e \<Rightarrow> (st1, Inl e)
                      | Inr options_html \<Rightarrow>
                          (let content' = replace_all old_select (new_select options_html) content;
                               st2 = write_file ''popup.html'' content' st1
                           in (py_print (''Updated '' @ popup_file @ '' with ''
                                          @ str_nat (length models) @ '' models'') st2,
                               Inr True)))))"

subsection \<open>The mapping of \<^verbatim>\<open>content.js\<close>\<close>

definition mapping_line :: "bool \<Rightarrow> json \<Rightarrow> string result" where
  \<comment> \<open>the body of the loop over the models; \<open>is_last\<close> is \<^verbatim>\<open>i == len(models) - 1\<close>\<close>
  \<open>mapping_line is_last model =
     (case py_get model ''model_id'' (JStr []) of
        Inl e \<Rightarrow> Inl e
      | Inr model_id \<Rightarrow>
          (case py_get model ''name'' (JStr []) of
             Inl e \<Rightarrow> Inl e
           | Inr name \<Rightarrow>
               (case name of
                  JStr s \<Rightarrow>
                    (let model_name = replace_all '' '' ''_'' (lower s)
                     in Inr (if is_last
                             then ''    "'' @ py_str model_id @ ''"; // default''
                             else ''    (mode === "'' @ model_name @ ''" || mode === "''
                                  @ py_str model_id @ ''") ? "'' @ py_str model_id @ ''" :''))
                | _ \<Rightarrow> Inl (AttributeError name ''lower''))))\<close>

fun mapping_entries :: "json list \<Rightarrow> string list result" where
  "mapping_entries [] = Inr []"
| "mapping_entries (model # rest) =
     (case mapping_line (rest = []) model of
        Inl e \<Rightarrow> Inl e
      | Inr l \<Rightarrow>
          (case mapping_entries rest of
             Inl e \<Rightarrow> Inl e
           | Inr ls \<Rightarrow> Inr (l # ls)))"

definition new_mapping :: "string list \<Rightarrow> string" where
  "new_mapping entries = join [CHR 0x0A] (''  const model_id ='' # entries)"

definition update_content_js_model_mapping ::
  "updater \<Rightarrow> json list \<Rightarrow> state \<Rightarrow> state \<times> bool result" where
  "update_content_js_model_mapping u models st =
     (let content_file = path_str (extension_path u) ''content.js''
      in case files st ''content.js'' of
           None \<Rightarrow> (py_print (''Error: '' @ content_file @ '' not found'') st, Inr False)
         | Some content \<Rightarrow>
             (let st1 = py_print (''Updating '' @ content_file @ ''...'') st
              in case search_mapping content of
                   None \<Rightarrow>
                     (py_print ''Error: Could not find model mapping in content.js'' st1,
                      Inr False)
                 | Some span \<Rightarrow>
                     (case mapping_entries models of
                        Inl e \<Rightarrow> (st1, Inl e)
                      | Inr entries \<Rightarrow>
                          (case re_sub_mapping (new_mapping entries @ [CHR 0x0A]) content of
                             Inl e \<Rightarrow> (st1, Inl e)
                           | Inr content' \<Rightarrow>
                               (py_print (''Updated model mapping in '' @ content_file)
                                  (write_file ''content.js'' content' st1),
                                Inr True)))))"

subsection \<open>The snapshots \<^verbatim>\<open>models.json\<close> and \<^verbatim>\<open>voices.json\<close>\<close>

definition get_or :: "(string \<times> json) list \<Rightarrow> string \<Rightarrow> json \<Rightarrow> json" where
  \<comment> \<open>\<^verbatim>\<open>d.get(k, dflt)\<close> on a dict\<close>
  "get_or kvs k dflt = (case map_of kvs k of None \<Rightarrow> dflt | Some v \<Rightarrow> v)"

definition format_model :: "json \<Rightarrow> json result" where
  \<comment> \<open>the dict \<^verbatim>\<open>formatted\<close> of \<^verbatim>\<open>create_models_json\<close>; \<^verbatim>\<open>get\<close> without a default
      gives \<^verbatim>\<open>None\<close>\<close>
  "format_model model =
     (case model of
        JObj kvs \<Rightarrow>
          Inr (JObj
            [(''model_id'', get_or kvs ''model_id'' JNull),
             (''name'', get_or kvs ''name'' JNull),
             (''description'', get_or kvs ''description'' JNull),
             (''can_be_finetuned'', get_or kvs ''can_be_finetuned'' (JBool False)),
             (''token_cost_factor'', get_or kvs ''token_cost_factor'' (JFloat ''1.0'')),
             (''languages'', get_or kvs ''languages'' (JList [])),
             (''can_do_text_to_speech'', get_or kvs ''can_do_text_to_speech'' (JBool False)),
             (''can_do_voice_conversion'', get_or kvs ''can_do_voice_conversion'' (JBool False))])
      | _ \<Rightarrow> Inl (AttributeError model ''get''))"

definition create_models_json :: "updater \<Rightarrow> json list \<Rightarrow> state \<Rightarrow> state \<times> bool result" where
  "create_models_json u models st =
     (let models_file = path_str (extension_path u) ''models.json''
      in case map_result format_model models of
           Inl e \<Rightarrow> (st, Inl e)
         | Inr formatted_models \<Rightarrow>
             (py_print (''Created '' @ models_file @ '' with model information'')
                (write_file ''models.json'' (json_dumps (JList formatted_models)) st),
              Inr True))"

definition format_voice :: "json \<Rightarrow> json result" where
  \<comment> \<open>the dict \<^verbatim>\<open>formatted\<close> of \<^verbatim>\<open>create_voices_json\<close>\<close>
  "format_voice voice =
     (case voice of
        JObj kvs \<Rightarrow>
          Inr (JObj
            [(''voice_id'', get_or kvs ''voice_id'' JNull),
             (''name'', get_or kvs ''name'' JNull),
             (''category'', get_or kvs ''category'' JNull),
             (''description'', get_or kvs ''description'' (JStr [])),
             (''labels'', get_or kvs ''labels'' (JObj [])),
             (''preview_url'', get_or kvs ''preview_url'' (JStr [])),
             (''available_for_tiers'', get_or kvs ''available_for_tiers'' (JList [])),
             (''settings'', get_or kvs ''settings'' (JObj []))])
      | _ \<Rightarrow> Inl (AttributeError voice ''get''))"

definition create_voices_json :: "updater \<Rightarrow> json \<Rightarrow> state \<Rightarrow> state \<times> bool result" where
  "create_voices_json u voices st =
     (let voices_file = path_str (extension_path u) ''voices.json''
      in case py_iter voices of
           Inl e \<Rightarrow> (st, Inl e)
         | Inr items \<Rightarrow>
             (case map_result format_voice items of
                Inl e \<Rightarrow> (st, Inl e)
              | Inr formatted_voices \<Rightarrow>
                  (py_print (''Created '' @ voices_file @ '' with voice information'')
                     (write_file ''voices.json'' (json_dumps (JList formatted_voices)) st),
                   Inr True)))"

subsection \<open>The version of \<^verbatim>\<open>manifest.json\<close>\<close>

fun set_item :: "(string \<times> json) list \<Rightarrow> string \<Rightarrow> json \<Rightarrow> (string \<times> json) list" where
  \<comment> \<open>\<^verbatim>\<open>d[k] = v\<close>: a key the dict has keeps its place, a new one goes last.\<close>
  "set_item [] k v = [(k, v)]"
| "set_item ((k', v') # kvs) k v =
     (if k' = k then (k, v) # kvs else (k', v') # set_item kvs k v)"

datatype bump = NoBump | Bump string string json

definition bump_version :: "pylib \<Rightarrow> string \<Rightarrow> bump result" where
  \<comment> \<open>The body of the \<^verbatim>\<open>try\<close> up to the write: \<open>Bump current new manifest\<close> when the
      version has three parts, \<open>NoBump\<close> when it has not, \<open>Inl\<close> the exception raised.\<close>
  "bump_version lib txt =
     (case json_loads lib txt of
        None \<Rightarrow> Inl (JSONDecodeError txt)
      | Some manifest \<Rightarrow>
          (case py_get manifest ''version'' (JStr ''1.0.0'') of
             Inl e \<Rightarrow> Inl e
           | Inr v \<Rightarrow>
               (case v of
                  JStr current_version \<Rightarrow>
                    (let parts = split_on CHR ''.'' current_version
                     in if length parts = 3 then
                          (case py_int (parts ! 2) of
                             None \<Rightarrow> Inl (ValueError (parts ! 2))
                           | Some n \<Rightarrow>
                               (let new_version =
                                      parts ! 0 @ ''.'' @ parts ! 1 @ ''.'' @ str_int (n + 1)
                                in Inr (Bump current_version new_version
                                         (case manifest of
                                            JObj kvs \<Rightarrow>
                                              JObj (set_item kvs ''version'' (JStr new_version))
                                          | _ \<Rightarrow> manifest))))
                        else Inr NoBump)
                | _ \<Rightarrow> Inl (AttributeError v ''split''))))"

definition update_manifest_version :: "pylib \<Rightarrow> updater \<Rightarrow> state \<Rightarrow> state \<times> bool" where
  "update_manifest_version lib u st =
     (case files st ''manifest.json'' of
        None \<Rightarrow> (py_print ''Note: manifest.json not found, skipping version update'' st, False)
      | Some txt \<Rightarrow>
          (case bump_version lib txt of
             Inl e \<Rightarrow> (py_print (''Error updating manifest: '' @ exc_text lib e) st, False)
           | Inr NoBump \<Rightarrow> (st, False)
           | Inr (Bump current_version new_version manifest) \<Rightarrow>
               (py_print (''Updated manifest version from '' @ current_version @ '' to ''
                           @ new_version)
                  (write_file ''manifest.json'' (json_dumps manifest) st),
                True)))"

subsection \<open>The report\<close>

text \<open>
  The report is written piece by piece into the open file, so an exception in the middle
  leaves the pieces written before it in \<^verbatim>\<open>update_report.txt\<close>. A writer returns the
  text it wrote and the exception that stopped it, if one did.
\<close>

definition language_text :: "json \<Rightarrow> string result" where
  \<comment> \<open>\<^verbatim>\<open>f"{item['language_id']}: {item['name']}"\<close>\<close>
  "language_text item =
     (case py_getitem item ''language_id'' of
        Inl e \<Rightarrow> Inl e
      | Inr language_id \<Rightarrow>
          (case py_getitem item ''name'' of
             Inl e \<Rightarrow> Inl e
           | Inr name \<Rightarrow> Inr (py_str language_id @ '': '' @ py_str name)))"

definition report_model :: "json \<Rightarrow> string \<times> error option" where
  \<comment> \<open>the four writes of the loop over the models\<close>
  "report_model model =
     (case model of
        JObj kvs \<Rightarrow>
          (let w1 = ''- '' @ py_str (get_or kvs ''name'' JNull) @ '' (''
                    @ py_str (get_or kvs ''model_id'' JNull) @ '')'' @ [CHR 0x0A];
               w2 = ''  Description: '' @ py_str (get_or kvs ''description'' (JStr ''N/A''))
                    @ [CHR 0x0A]
           in case py_iter (get_or kvs ''languages'' (JList [])) of
                Inl e \<Rightarrow> (w1 @ w2, Some e)
              | Inr items \<Rightarrow>
                  (case map_result language_text items of
                     Inl e \<Rightarrow> (w1 @ w2, Some e)
                   | Inr langs \<Rightarrow>
                       (w1 @ w2 @ ''  Languages: '' @ join '', '' langs
                          @ ''  Token cost: ''
                          @ py_str (get_or kvs ''token_cost_factor'' (JFloat ''1.0''))
                          @ ''x'' @ [CHR 0x0A, CHR 0x0A],
                        None)))
      | _ \<Rightarrow> ([], Some (AttributeError model ''get'')))"

fun report_models :: "json list \<Rightarrow> string \<times> error option" where
  "report_models [] = ([], None)"
| "report_models (model # rest) =
     (case report_model model of
        (w, Some e) \<Rightarrow> (w, Some e)
      | (w, None) \<Rightarrow> (case report_models rest of (ws, r) \<Rightarrow> (w @ ws, r)))"

definition report_subscription :: "json \<Rightarrow> string \<times> error option" where
  "report_subscription subscription =
     (if py_truthy subscription then
        (case subscription of
           JObj kvs \<Rightarrow>
             (''Tier: '' @ py_str (get_or kvs ''tier'' (JStr ''N/A'')) @ [CHR 0x0A]
              @ ''Character limit: ''
              @ py_str (get_or kvs ''character_limit'' (JStr ''N/A'')) @ [CHR 0x0A]
              @ ''Character count: ''
              @ py_str (get_or kvs ''character_count'' (JStr ''N/A'')) @ [CHR 0x0A]
              @ ''Can use instant voice cloning: ''
              @ py_str (get_or kvs ''can_use_instant_voice_cloning'' (JBool False)) @ [CHR 0x0A]
              @ ''Can use professional voice cloning: ''
              @ py_str (get_or kvs ''can_use_professional_voice_cloning'' (JBool False))
              @ [CHR 0x0A],
              None)
         | _ \<Rightarrow> ([], Some (AttributeError subscription ''get'')))
      else ([], None))"

definition report_text :: "string \<Rightarrow> json list \<Rightarrow> json \<Rightarrow> json \<Rightarrow> string \<times> error option" where
  \<comment> \<open>everything written between the opening and the closing of the report file;
      \<open>now\<close> is the clock's time as \<^verbatim>\<open>strftime\<close> prints it\<close>
  "report_text now models voices subscription =
     (let head = ''=== ElevenLabs Extension Update Report ==='' @ [CHR 0x0A, CHR 0x0A]
                 @ ''Date: '' @ now @ [CHR 0x0A]
                 @ ''Models found: '' @ str_nat (length models) @ [CHR 0x0A]
      in case py_len voices of
           Inl e \<Rightarrow> (head, Some e)
         | Inr n \<Rightarrow>
             (let head2 = head @ ''Voices found: '' @ str_nat n @ [CHR 0x0A, CHR 0x0A]
                          @ ''=== Available Models ==='' @ [CHR 0x0A]
              in case report_models models of
                   (w, Some e) \<Rightarrow> (head2 @ w, Some e)
                 | (w, None) \<Rightarrow>
                     (case report_subscription subscription of
                        (w', r) \<Rightarrow>
                          (head2 @ w @ [CHR 0x0A] @ ''=== Subscription Info ==='' @ [CHR 0x0A] @ w',
                           r))))"

definition create_update_report ::
  "updater \<Rightarrow> string \<Rightarrow> json list \<Rightarrow> json \<Rightarrow> json \<Rightarrow> state \<Rightarrow> state \<times> bool result" where
  "create_update_report u now models voices subscription st =
     (let report_file = path_str (extension_path u) ''update_report.txt''
      in case report_text now models voices subscription of
           (txt, Some e) \<Rightarrow> (write_file ''update_report.txt'' txt st, Inl e)
         | (txt, None) \<Rightarrow>
             (py_print (''Created update report: '' @ report_file)
                (write_file ''update_report.txt'' txt st),
              Inr True))"

subsection \<open>The run\<close>

definition banner :: string where
  "banner = replicate 60 CHR ''=''"

definition next_steps :: "string list" where
  \<open>next_steps =
     [[CHR 0x0A] @ banner, ''UPDATE COMPLETE!'', banner,
      [CHR 0x0A] @ ''Next steps:'',
      ''1. Load the updated extension in Chrome:'',
      ''   - Go to chrome://extensions/'',
      [CHR '' '', CHR '' '', CHR '' '', CHR ''-'', CHR '' ''] @ ''Enable '' @ [CHR 0x27]
        @ ''Developer mode'' @ [CHR 0x27],
      [CHR '' '', CHR '' '', CHR '' '', CHR ''-'', CHR '' ''] @ ''Click '' @ [CHR 0x27]
        @ ''Load unpacked'' @ [CHR 0x27],
      ''   - Select the extension directory'',
      [CHR 0x0A] @ ''2. Test the extension with the new models'',
      [CHR 0x0A] @ ''3. Check update_report.txt for details'']\<close>

definition run_update :: "pylib \<Rightarrow> updater \<Rightarrow> api \<Rightarrow> string \<Rightarrow> state \<Rightarrow> state \<times> bool result" where
  \<comment> \<open>\<open>now\<close> is the time the clock shows when the report is written.\<close>
  "run_update lib u a now st =
     (let st0 = py_print banner (py_print ''ElevenLabs Chrome Extension Updater'' (py_print banner st))
      in and_then (fetch_models a st0) (\<lambda>st1 models.
         and_then (fetch_voices a st1) (\<lambda>st2 voices.
           (case get_user_subscription a st2 of (st3, subscription) \<Rightarrow>
              if models = [] then (py_print ''No models found. Update aborted.'' st3, Inr False)
              else
                and_then (update_popup_html u models st3) (\<lambda>st4 popup_ok.
                and_then (update_content_js_model_mapping u models st4) (\<lambda>st5 content_ok.
                and_then (create_models_json u models st5) (\<lambda>st6 r6.
                and_then (create_voices_json u voices st6) (\<lambda>st7 r7.
                  (case update_manifest_version lib u st7 of (st8, r8) \<Rightarrow>
                     and_then (create_update_report u now models voices subscription st8)
                       (\<lambda>st9 r9.
                          (let success = (popup_ok \<and> content_ok)
                           in if success then (foldl (\<lambda>s l. py_print l s) st9 next_steps, Inr True)
                              else (py_print ([CHR 0x0A]
                                      @ ''Update completed with some errors. Check the output above.'')
                                      st9,
                                    Inr False))))))))))))"

subsection \<open>The program\<close>

text \<open>
  The console gives what the user types at the two prompts. \<^verbatim>\<open>getpass\<close> writes its
  prompt to the terminal, not to the standard output; \<^verbatim>\<open>input\<close> writes its prompt to
  the standard output, without a line break.
\<close>

record console =
  typed_key :: string
  typed_path :: string

datatype outcome = Returned | Exited nat | Raised error

definition main :: "pylib \<Rightarrow> console \<Rightarrow> api \<Rightarrow> string \<Rightarrow> state \<Rightarrow> state \<times> outcome" where
  "main lib con a now st =
     (let st1 = py_print (replicate 40 CHR ''-'')
                  (py_print ''ElevenLabs Chrome Extension Updater'' st);
          key = strip (typed_key con);
          st2 = py_print (str_nat (length key) @ '' '' @ drop (length key - 4) key) st1
      in if key = [] then (py_print ''Error: API key is required'' st2, Exited 1)
         else
           (let st3 = st2\<lparr>stdout := stdout st2
                                @ ''Enter extension path [default: current directory]: ''\<rparr>;
                default_path = strip (typed_path con);
                path = (if default_path \<noteq> [] then default_path else ''.'');
                updater = \<lparr>api_key = key, extension_path = path\<rparr>
            in case run_update lib updater a now st3 of
                 (st4, Inl e) \<Rightarrow> (st4, Raised e)
               | (st4, Inr r) \<Rightarrow> (st4, Returned)))"

record args =
  arg_api_key :: "string option"
  arg_path :: string

definition script :: "pylib \<Rightarrow> args \<Rightarrow> console \<Rightarrow> api \<Rightarrow> string \<Rightarrow> state \<Rightarrow> state \<times> outcome" where
  \<comment> \<open>the block under \<^verbatim>\<open>if __name__ == "__main__"\<close>, for arguments the parser accepts\<close>
  "script lib ar con a now st =
     (case arg_api_key ar of
        Some k \<Rightarrow>
          (if k \<noteq> [] then
             (case run_update lib \<lparr>api_key = k, extension_path = arg_path ar\<rparr> a now st of
                (st', Inl e) \<Rightarrow> (st', Raised e)
              | (st', Inr r) \<Rightarrow> (st', Returned))
           else main lib con a now st)
      | None \<Rightarrow> main lib con a now st)"

section \<open>Example worlds\<close>

text \<open>Concrete inputs, on which the theorems below are instantiated.\<close>

definition demo_lib :: pylib where
  "demo_lib = \<lparr>json_loads = (\<lambda>s. None), exc_text = (\<lambda>e. [])\<rparr>"

definition demo_api :: api where
  "demo_api = \<lparr>models_response = Inl ''timeout'', voices_response = Inl ''timeout'', subscription_response = Inl ''timeout''\<rparr>"

definition demo_console :: console where
  "demo_console = \<lparr>typed_key = '' sk_abcdefg '', typed_path = []\<rparr>"


definition demo_state :: state where
  \<open>demo_state = \<lparr>files = [''popup.html'' \<mapsto> ''<select id="mode"></select>'',
      ''content.js'' \<mapsto> ''const model_id = 1;'' @ [CHR 0x0A]], stdout = []\<rparr>\<close>









definition bad_language_api :: api where
  "bad_language_api = \<lparr>models_response = Inr (JList [JObj [(''model_id'', JStr ''eleven_v2''),
       (''name'', JStr ''Eleven V2''), (''can_do_text_to_speech'', JBool True),
       (''languages'', JList [JObj [(''name'', JStr ''English'')]])]]),
     voices_response = Inr (JObj [(''voices'', JList [])]),
     subscription_response = Inr (JObj [])\<rparr>"

subsection \<open>Models as the data model describes them\<close>







section \<open>Basic facts\<close>

lemma find_sub_Nil [simp]: "find_sub [] s = Some 0"
  by (cases s) simp_all

subsection \<open>What is printed is never taken back\<close>

lemma stdout_py_print: "prefix p (stdout st) \<Longrightarrow> prefix p (stdout (py_print s st))"
  by (auto simp: py_print_def prefix_def)

lemma stdout_write_file [simp]: "stdout (write_file n t st) = stdout st"
  by (simp add: write_file_def)

lemma files_py_print [simp]: "files (py_print s st) = files st"
  by (simp add: py_print_def)

lemma files_write_file [simp]: "files (write_file n t st) = (files st)(n \<mapsto> t)"
  by (simp add: write_file_def)

lemma and_then_stdout:
  assumes "prefix p (stdout (fst r))"
    and "\<And>s x. prefix p (stdout s) \<Longrightarrow> prefix p (stdout (fst (k s x)))"
  shows "prefix p (stdout (fst (and_then r k)))"
  using assms by (cases r) (auto simp: and_then_def split: sum.splits)

lemma stdout_fetch_models: "prefix p (stdout st) \<Longrightarrow> prefix p (stdout (fst (fetch_models a st)))"
  by (auto simp: fetch_models_def Let_def intro!: stdout_py_print split: sum.splits)

lemma stdout_fetch_voices: "prefix p (stdout st) \<Longrightarrow> prefix p (stdout (fst (fetch_voices a st)))"
  by (auto simp: fetch_voices_def Let_def intro!: stdout_py_print split: sum.splits)

lemma stdout_subscription:
  "prefix p (stdout st) \<Longrightarrow> prefix p (stdout (fst (get_user_subscription a st)))"
  by (auto simp: get_user_subscription_def Let_def intro!: stdout_py_print split: sum.splits)

lemma stdout_popup:
  "prefix p (stdout st) \<Longrightarrow> prefix p (stdout (fst (update_popup_html u ms st)))"
  by (auto simp: update_popup_html_def Let_def intro!: stdout_py_print split: sum.splits option.splits)

lemma stdout_content:
  "prefix p (stdout st) \<Longrightarrow> prefix p (stdout (fst (update_content_js_model_mapping u ms st)))"
  by (auto simp: update_content_js_model_mapping_def Let_def intro!: stdout_py_print
      split: sum.splits option.splits)

lemma stdout_models_json:
  "prefix p (stdout st) \<Longrightarrow> prefix p (stdout (fst (create_models_json u ms st)))"
  by (auto simp: create_models_json_def Let_def intro!: stdout_py_print split: sum.splits)

lemma stdout_voices_json:
  "prefix p (stdout st) \<Longrightarrow> prefix p (stdout (fst (create_voices_json u vs st)))"
  by (auto simp: create_voices_json_def Let_def intro!: stdout_py_print split: sum.splits)

lemma stdout_manifest:
  "prefix p (stdout st) \<Longrightarrow> prefix p (stdout (fst (update_manifest_version lib u st)))"
  by (auto simp: update_manifest_version_def intro!: stdout_py_print
      split: sum.splits option.splits bump.splits)

lemma stdout_report:
  "prefix p (stdout st) \<Longrightarrow> prefix p (stdout (fst (create_update_report u now ms vs sub st)))"
  by (auto simp: create_update_report_def Let_def intro!: stdout_py_print
      split: sum.splits option.splits prod.splits)

lemma stdout_foldl_print:
  "prefix p (stdout st) \<Longrightarrow> prefix p (stdout (foldl (\<lambda>s l. py_print l s) st ls))"
  by (induction ls arbitrary: st) (auto intro: stdout_py_print)

lemma prod_case_stdout:
  assumes "\<And>s x. r = (s, x) \<Longrightarrow> prefix p (stdout (fst (k s x)))"
  shows "prefix p (stdout (fst (case r of (s, x) \<Rightarrow> k s x)))"
  using assms by (cases r) simp

lemma stdout_subscription_eq:
  "get_user_subscription a st = (s, x) \<Longrightarrow> prefix p (stdout st) \<Longrightarrow> prefix p (stdout s)"
  using stdout_subscription [of p st a] by simp

lemma stdout_manifest_eq:
  "update_manifest_version lib u st = (s, x) \<Longrightarrow> prefix p (stdout st) \<Longrightarrow> prefix p (stdout s)"
  using stdout_manifest [of p st lib u] by simp

lemma stdout_run_update:
  assumes "prefix p (stdout st)"
  shows "prefix p (stdout (fst (run_update lib u a now st)))"
  unfolding run_update_def Let_def
proof (intro and_then_stdout stdout_fetch_models stdout_fetch_voices prod_case_stdout)
  show "prefix p (stdout (py_print banner (py_print ''ElevenLabs Chrome Extension Updater'' (py_print banner st))))"
    using assms by (intro stdout_py_print)
next
  fix s1 models s2 voices s3 subscription
  assume "prefix p (stdout s2)" and "get_user_subscription a s2 = (s3, subscription)"
  then have s3: "prefix p (stdout s3)"
    by (rule stdout_subscription_eq [rotated])
  show "prefix p (stdout (fst (if models = []
          then (py_print ''No models found. Update aborted.'' s3, Inr False)
          else and_then (update_popup_html u models s3) (\<lambda>st4 popup_ok.
               and_then (update_content_js_model_mapping u models st4) (\<lambda>st5 content_ok.
               and_then (create_models_json u models st5) (\<lambda>st6 r6.
               and_then (create_voices_json u voices st6) (\<lambda>st7 r7.
                 case update_manifest_version lib u st7 of
                   (st8, r8) \<Rightarrow>
                     and_then (create_update_report u now models voices subscription st8)
                       (\<lambda>st9 r9. if popup_ok \<and> content_ok
                          then (foldl (\<lambda>s l. py_print l s) st9 next_steps, Inr True)
                          else (py_print ([CHR 0x0A] @ ''Update completed with some errors. Check the output above.'') st9, Inr False)))))))))"
  proof (cases "models = []")
    case True
    then show ?thesis using s3 by (simp add: stdout_py_print)
  next
    case False
    then show ?thesis
      using s3
      by (auto intro!: and_then_stdout stdout_popup stdout_content stdout_models_json
          stdout_voices_json stdout_report stdout_py_print stdout_foldl_print prod_case_stdout
          dest: stdout_manifest_eq)
  qed
qed


lemma stdout_main_run:
  "prefix p (stdout st) \<Longrightarrow> prefix p (stdout (fst (case run_update lib u a now st of (st4, Inl e) \<Rightarrow> (st4, Raised e) | (st4, Inr r) \<Rightarrow> (st4, Returned))))"
  using stdout_run_update [of p st lib u a now]
  by (cases "run_update lib u a now st") (auto split: sum.splits)

subsection \<open>Which files a step touches\<close>









lemma files_models_json_other:
  "x \<noteq> ''models.json'' \<Longrightarrow> files (fst (create_models_json u ms st)) x = files st x"
  by (simp add: create_models_json_def Let_def split: sum.splits)




lemma files_foldl_print [simp]: "files (foldl (\<lambda>s l. py_print l s) st ls) = files st"
  by (induction ls arbitrary: st) simp_all


subsection \<open>What a step has done when it returns\<close>







subsection \<open>Loops over the models\<close>

lemma get_or_absent [simp]: "map_of kvs k = None \<Longrightarrow> get_or kvs k d = d"
  by (simp add: get_or_def)

lemma get_or_present [simp]: "map_of kvs k = Some v \<Longrightarrow> get_or kvs k d = v"
  by (simp add: get_or_def)









subsection \<open>Version strings\<close>










subsection \<open>Searching and replacing\<close>













lemma expand_literal [simp]: "expand_template (map Lit repl) m = repl"
  by (induction repl) (simp_all add: expand_template_def)



subsection \<open>When a pattern is found\<close>







section \<open>The claims\<close>

text \<open>
  C10. Right after the key has been read through the masked prompt, \<^verbatim>\<open>main\<close> prints
  the length of the key and its last four characters on the standard output: for every
  key that is not empty after stripping, the output of the program continues with the
  two title lines and then the line \<^verbatim>\<open><length> <last four characters>\<close>, and the
  characters disclosed are not empty.
\<close>

theorem main_prints_key_tail:
  assumes "strip (typed_key con) \<noteq> []"
  shows "\<exists>rest. stdout (fst (main lib con a now st)) =
           stdout st @ ''ElevenLabs Chrome Extension Updater'' @ [CHR 0x0A]
           @ replicate 40 CHR ''-'' @ [CHR 0x0A]
           @ str_nat (length (strip (typed_key con))) @ '' ''
           @ drop (length (strip (typed_key con)) - 4) (strip (typed_key con)) @ [CHR 0x0A]
           @ rest
         \<and> drop (length (strip (typed_key con)) - 4) (strip (typed_key con)) \<noteq> []"
proof -
  define k where "k = strip (typed_key con)"
  define st2 where "st2 = py_print (str_nat (length k) @ '' '' @ drop (length k - 4) k)
               (py_print (replicate 40 CHR ''-'') (py_print ''ElevenLabs Chrome Extension Updater'' st))"
  define st3 where "st3 = st2\<lparr>stdout := stdout st2 @ ''Enter extension path [default: current directory]: ''\<rparr>"
  have "prefix (stdout st2) (stdout st3)"
    by (simp add: st3_def)
  then have "prefix (stdout st2) (stdout (fst (main lib con a now st)))"
    using assms unfolding main_def Let_def k_def [symmetric] st2_def [symmetric] st3_def [symmetric]
    by (simp only: k_def [symmetric] if_False) (rule stdout_main_run)
  then obtain rest where "stdout (fst (main lib con a now st)) = stdout st2 @ rest"
    by (auto simp: prefix_def)
  moreover have "drop (length k - 4) k \<noteq> []"
    using assms unfolding k_def [symmetric] by (cases k) auto
  ultimately show ?thesis
    by (simp add: st2_def py_print_def k_def del: replicate.simps)
qed

theorem main_prints_key_tail_witness:
  "strip (typed_key demo_console) \<noteq> []
   \<and> (\<exists>rest. stdout (fst (main demo_lib demo_console demo_api [] \<lparr>files = Map.empty, stdout = []\<rparr>)) =
        ''ElevenLabs Chrome Extension Updater'' @ [CHR 0x0A] @ replicate 40 CHR ''-'' @ [CHR 0x0A]
        @ ''10 defg'' @ [CHR 0x0A] @ rest)"
proof -
  have k: "strip (typed_key demo_console) = ''sk_abcdefg''"
    by code_simp
  have n: "str_nat (length ''sk_abcdefg'') = ''10''"
    by code_simp
  have d: "drop (length ''sk_abcdefg'' - 4) ''sk_abcdefg'' = ''defg''"
    by code_simp
  have h: "strip (typed_key demo_console) \<noteq> []"
    unfolding k by simp
  have "\<exists>rest. stdout (fst (main demo_lib demo_console demo_api [] \<lparr>files = Map.empty, stdout = []\<rparr>)) =
        ''ElevenLabs Chrome Extension Updater'' @ [CHR 0x0A] @ replicate 40 CHR ''-'' @ [CHR 0x0A]
        @ ''10 defg'' @ [CHR 0x0A] @ rest"
    using main_prints_key_tail [OF h, where lib = demo_lib and a = demo_api and now = "[]"
        and st = "\<lparr>files = Map.empty, stdout = []\<rparr>"]
    unfolding k n d by (simp del: replicate.simps)
  with h show ?thesis
    by (rule conjI)
qed







text \<open>
  C9. The claim is that no exception reaches the top level but for the missing key, which
  ends the process with status 1. The report writer subscripts each language with
  \<^verbatim>\<open>item['language_id']\<close>, where every other field of the script is read with
  \<^verbatim>\<open>get\<close>: for a language without that key the \<^verbatim>\<open>KeyError\<close> goes through
  \<^verbatim>\<open>run_update\<close> and \<^verbatim>\<open>main\<close> uncaught, from the interactive entry and from the one
  with arguments alike.
\<close>

lemma missing_key_exits:
  "strip (typed_key con) = [] \<Longrightarrow> snd (main lib con a now st) = Exited 1"
  by (simp add: main_def Let_def)

theorem report_key_error_reaches_top:
  "snd (main demo_lib demo_console bad_language_api ''2025-01-01 10:00:00'' demo_state)
     = Raised (KeyError ''language_id'')
   \<and> snd (script demo_lib \<lparr>arg_api_key = Some ''sk_abcdefg'', arg_path = ''.''\<rparr> demo_console
          bad_language_api ''2025-01-01 10:00:00'' demo_state)
     = Raised (KeyError ''language_id'')"
  by code_simp
























end
